theory Spec2Isabelle
  imports Complex_Main "HOL-Library.Word"
begin

unbundle bit_operations_syntax

section \<open>Overview\<close>

text \<open>
  A shallow embedding of the \<open>Timezones\<close> class of \<open>tz-import.src.js\<close>: the offset codec, the
  DST rule engine, the zone resolver, the nearest-zone scan and the facade methods built on
  them.  A method that reads or writes the private fields of an instance takes the state of
  the instance (a record) and returns it updated; a method that can raise returns a sum,
  with the error on the left.  The host supplies the Date object, the local time zone and
  the clock; within one call the clock shows one time value.  The zone table \<open>core_tz_db\<close>
  is imported by the class from the module \<open>tz-db\<close> and is a parameter of the embedding.
\<close>

section \<open>JavaScript values used by the library\<close>

text \<open>
  A JavaScript number that the library computes with is either an integer or NaN.
  (Offsets, years, days and millisecond time values are integers; \<open>parseInt\<close> yields NaN
  when no digit can be read.)  Arithmetic on NaN yields NaN, every comparison with NaN is
  false.  Doubles are exact on integers below \<open>2 ^ 53\<close>; the model does not round.
\<close>

datatype jsnum = Num int | NaN

text \<open>The errors the library's code can raise.\<close>

datatype error =
    TypeError              \<comment> \<open>a property read or call on \<open>undefined\<close>\<close>
  | InvalidOffsetFormat    \<comment> \<open>\<open>new Error('Invalid offset format')\<close>\<close>
  | InvalidTimezoneFormat  \<comment> \<open>\<open>new Error('Invalid timezone format')\<close>\<close>
  | UnableToDetermineOffset \<comment> \<open>\<open>new Error('Unable to determine offset ...')\<close>\<close>

subsection \<open>Strings\<close>

text \<open>Strings are modelled as lists of 8-bit characters (the table and the hints are ASCII).\<close>

definition is_digit :: "char \<Rightarrow> bool" where
  "is_digit c = (48 \<le> (of_char c :: nat) \<and> (of_char c :: nat) \<le> 57)"

definition digit_val :: "char \<Rightarrow> nat" where
  "digit_val c = (of_char c :: nat) - 48"

definition digit_char :: "nat \<Rightarrow> char" where
  "digit_char d = char_of (48 + d)"

text \<open>\<open>Number.prototype.toString\<close> on a non-negative integer.\<close>

fun toString_nat :: "nat \<Rightarrow> string" where
  "toString_nat n =
     (if n < 10 then [digit_char n] else toString_nat (n div 10) @ [digit_char (n mod 10)])"

declare toString_nat.simps [simp del]

definition padStart :: "nat \<Rightarrow> char \<Rightarrow> string \<Rightarrow> string" where
  "padStart len c s = replicate (len - length s) c @ s"

text \<open>The helper \<open>pad(num, len)\<close> at the end of the source file.\<close>

definition pad :: "nat \<Rightarrow> nat \<Rightarrow> string" where
  "pad n len = padStart len (CHR ''0'') (toString_nat n)"

text \<open>\<open>String.prototype.split\<close> on a one-character separator.\<close>

fun split_on :: "char \<Rightarrow> string \<Rightarrow> string list" where
  "split_on c [] = [[]]"
| "split_on c (x # xs) =
     (if x = c then [] # split_on c xs
      else (case split_on c xs of [] \<Rightarrow> [[x]] | p # ps \<Rightarrow> (x # p) # ps))"

definition is_ws :: "char \<Rightarrow> bool" where
  "is_ws c = ((of_char c :: nat) \<in> {9, 10, 11, 12, 13, 32})"

fun digits_val :: "nat \<Rightarrow> string \<Rightarrow> nat" where
  "digits_val acc [] = acc"
| "digits_val acc (c # cs) = digits_val (10 * acc + digit_val c) cs"

text \<open>
  \<open>parseInt(s, 10)\<close>: leading white space is skipped, one sign is read, then the longest
  run of decimal digits; NaN when that run is empty.
\<close>

definition parseInt :: "string \<Rightarrow> jsnum" where
  "parseInt s =
     (let s1 = dropWhile is_ws s;
          neg = (case s1 of [] \<Rightarrow> False | c # _ \<Rightarrow> c = CHR ''-'');
          s2 = (case s1 of [] \<Rightarrow> [] | c # r \<Rightarrow> if c = CHR ''-'' \<or> c = CHR ''+'' then r else s1);
          ds = takeWhile is_digit s2
      in if ds = [] then NaN
         else Num ((if neg then - 1 else 1) * int (digits_val 0 ds)))"

text \<open>\<open>s.replace(/[+-]/, '')\<close>: the first plus or minus sign of the string is removed.\<close>

fun remove_first_sign :: "string \<Rightarrow> string" where
  "remove_first_sign [] = []"
| "remove_first_sign (c # cs) =
     (if c = CHR ''+'' \<or> c = CHR ''-'' then cs else c # remove_first_sign cs)"

section \<open>Offset codec\<close>

text \<open>
  \<open>#offset2str(tz_offset)\<close>, on an integer number of minutes.
\<close>

definition offset2str :: "int \<Rightarrow> string" where
  "offset2str tz_offset =
     (let ttl_mins = nat \<bar>tz_offset\<bar>;
          h = ttl_mins div 60;
          m = ttl_mins mod 60;
          sign = (if tz_offset \<ge> 0 then CHR ''+'' else CHR ''-'')
      in sign # pad h 2 @ CHR '':'' # pad m 2)"

text \<open>
  \<open>#str2offset(offset_str)\<close> without its memo table: the computation done on a miss.
\<close>

definition num_or_zero :: "jsnum \<Rightarrow> int" where
  "num_or_zero x = (case x of NaN \<Rightarrow> 0 | Num v \<Rightarrow> v)"

definition str2offset_compute :: "string \<Rightarrow> jsnum" where
  "str2offset_compute offset_str =
     (let parts = (if CHR '':'' \<in> set offset_str then split_on (CHR '':'') offset_str
                   else [offset_str, ''00'']);
          h = parseInt (remove_first_sign (parts ! 0));
          m = num_or_zero (parseInt (parts ! 1))
      in case h of
           NaN \<Rightarrow> NaN
         | Num hv \<Rightarrow>
             (let ttl_offset = hv * 60 + m
              in Num (if take 1 offset_str = ''-'' then - ttl_offset else ttl_offset)))"

text \<open>
  \<open>#str2offset\<close> with the instance's \<open>#offset_cache\<close> (a \<open>Map\<close> from the input string to
  the result): a hit returns the stored number, a miss computes and stores.
\<close>

definition str2offset :: "(string \<rightharpoonup> jsnum) \<Rightarrow> string \<Rightarrow> jsnum \<times> (string \<rightharpoonup> jsnum)" where
  "str2offset offset_cache offset_str =
     (case offset_cache offset_str of
        Some v \<Rightarrow> (v, offset_cache)
      | None \<Rightarrow> (let result = str2offset_compute offset_str
                 in (result, offset_cache(offset_str \<mapsto> result))))"

text \<open>
  The memo table only ever receives entries from \<open>#str2offset\<close> itself, so every state the
  instance can reach satisfies this invariant.
\<close>

definition offset_cache_ok :: "(string \<rightharpoonup> jsnum) \<Rightarrow> bool" where
  "offset_cache_ok c = (\<forall>s v. c s = Some v \<longrightarrow> v = str2offset_compute s)"

text \<open>The shape \<open>\<plusminus>HH:MM\<close>: a sign, two digits, a colon, two digits.\<close>

definition is_HH_MM :: "string \<Rightarrow> bool" where
  "is_HH_MM s =
     (length s = 6 \<and> (s ! 0 = CHR ''+'' \<or> s ! 0 = CHR ''-'') \<and> is_digit (s ! 1) \<and> is_digit (s ! 2)
      \<and> s ! 3 = CHR '':'' \<and> is_digit (s ! 4) \<and> is_digit (s ! 5))"

section \<open>The host's Date object\<close>

text \<open>
  The library computes with the Date object of the JavaScript host.  The definitions below
  are the abstract operations of ECMAScript (\<open>Day\<close>, \<open>DayFromYear\<close>, \<open>YearFromTime\<close>,
  \<open>MonthFromTime\<close>, \<open>DateFromTime\<close>, \<open>WeekDay\<close>, \<open>MakeDay\<close>, \<open>MakeDate\<close>) on time values,
  integers counting milliseconds since 1970-01-01T00:00:00Z.  Invalid dates and the range
  limit of \<open>TimeClip\<close> are not modelled.
\<close>

definition msPerDay :: int where
  "msPerDay = 86400000"

definition Day :: "int \<Rightarrow> int" where
  "Day t = t div msPerDay"

definition TimeWithinDay :: "int \<Rightarrow> int" where
  "TimeWithinDay t = t mod msPerDay"

definition DayFromYear :: "int \<Rightarrow> int" where
  "DayFromYear y = 365 * (y - 1970) + (y - 1969) div 4 - (y - 1901) div 100 + (y - 1601) div 400"

definition leap_year :: "int \<Rightarrow> bool" where
  "leap_year y = (y mod 4 = 0 \<and> (y mod 100 \<noteq> 0 \<or> y mod 400 = 0))"

text \<open>
  The year of a day number: the largest \<open>y\<close> with \<open>DayFromYear y \<le> d\<close>, found from the mean
  year length of 365.2425 days and one correction step.
\<close>

definition YearFromDay :: "int \<Rightarrow> int" where
  "YearFromDay d =
     (let y = 1970 + (d * 400) div 146097
      in if d < DayFromYear y then y - 1
         else if DayFromYear (y + 1) \<le> d then y + 1
         else y)"

definition YearFromTime :: "int \<Rightarrow> int" where
  "YearFromTime t = YearFromDay (Day t)"

definition DayWithinYear :: "int \<Rightarrow> int" where
  "DayWithinYear t = Day t - DayFromYear (YearFromTime t)"

text \<open>The number of days of the year before month \<open>m\<close> (0 is January).\<close>

definition month_start :: "bool \<Rightarrow> int \<Rightarrow> int" where
  "month_start leap m =
     (if m \<le> 0 then 0 else if m = 1 then 31
      else (if leap then 1 else 0) +
        (if m = 2 then 59 else if m = 3 then 90 else if m = 4 then 120 else if m = 5 then 151
         else if m = 6 then 181 else if m = 7 then 212 else if m = 8 then 243
         else if m = 9 then 273 else if m = 10 then 304 else if m = 11 then 334 else 365))"

definition month_of_day :: "bool \<Rightarrow> int \<Rightarrow> int" where
  "month_of_day leap d =
     (if d < month_start leap 1 then 0 else if d < month_start leap 2 then 1
      else if d < month_start leap 3 then 2 else if d < month_start leap 4 then 3
      else if d < month_start leap 5 then 4 else if d < month_start leap 6 then 5
      else if d < month_start leap 7 then 6 else if d < month_start leap 8 then 7
      else if d < month_start leap 9 then 8 else if d < month_start leap 10 then 9
      else if d < month_start leap 11 then 10 else 11)"

definition MonthFromTime :: "int \<Rightarrow> int" where
  "MonthFromTime t = month_of_day (leap_year (YearFromTime t)) (DayWithinYear t)"

definition DateFromTime :: "int \<Rightarrow> int" where
  "DateFromTime t =
     DayWithinYear t - month_start (leap_year (YearFromTime t)) (MonthFromTime t) + 1"

definition WeekDay :: "int \<Rightarrow> int" where
  "WeekDay t = (Day t + 4) mod 7"

definition MakeTime :: "int \<Rightarrow> int \<Rightarrow> int \<Rightarrow> int \<Rightarrow> int" where
  "MakeTime h m s ms = h * 3600000 + m * 60000 + s * 1000 + ms"

definition MakeDay :: "int \<Rightarrow> int \<Rightarrow> int \<Rightarrow> int" where
  "MakeDay year month date =
     (let ym = year + month div 12;
          mn = month mod 12
      in DayFromYear ym + month_start (leap_year ym) mn + date - 1)"

definition MakeDate :: "int \<Rightarrow> int \<Rightarrow> int" where
  "MakeDate day time = day * msPerDay + time"

text \<open>
  \<open>Date.UTC(year, month, date, hours, minutes, seconds)\<close>; a year from 0 to 99 stands for
  1900 plus that year.
\<close>

definition Date_UTC :: "int \<Rightarrow> int \<Rightarrow> int \<Rightarrow> int \<Rightarrow> int \<Rightarrow> int \<Rightarrow> int" where
  "Date_UTC year month date hours minutes seconds =
     (let yr = (if 0 \<le> year \<and> year \<le> 99 then 1900 + year else year)
      in MakeDate (MakeDay yr month date) (MakeTime hours minutes seconds 0))"

definition getUTCDay :: "int \<Rightarrow> int" where
  "getUTCDay t = WeekDay t"

definition getUTCMonth :: "int \<Rightarrow> int" where
  "getUTCMonth t = MonthFromTime t"

definition getUTCDate :: "int \<Rightarrow> int" where
  "getUTCDate t = DateFromTime t"

definition getUTCFullYear :: "int \<Rightarrow> int" where
  "getUTCFullYear t = YearFromTime t"

definition getUTCHours :: "int \<Rightarrow> int" where
  "getUTCHours t = (t div 3600000) mod 24"

definition getUTCMinutes :: "int \<Rightarrow> int" where
  "getUTCMinutes t = (t div 60000) mod 60"

definition getUTCSeconds :: "int \<Rightarrow> int" where
  "getUTCSeconds t = (t div 1000) mod 60"

definition setUTCDate :: "int \<Rightarrow> int \<Rightarrow> int" where
  "setUTCDate t dt = MakeDate (MakeDay (YearFromTime t) (MonthFromTime t) dt) (TimeWithinDay t)"

text \<open>
  The host: its local time zone adjustment in milliseconds at a time value (\<open>LocalTZA\<close>),
  its real-time clock, and the process-wide \<open>Timezones.#simulated_date\<close>.
\<close>

record host =
  LocalTZA :: "int \<Rightarrow> int"
  real_now :: int
  simulated_date :: "int option"

definition LocalTime :: "host \<Rightarrow> int \<Rightarrow> int" where
  "LocalTime h t = t + LocalTZA h t"

definition getFullYear :: "host \<Rightarrow> int \<Rightarrow> int" where
  "getFullYear h t = YearFromTime (LocalTime h t)"

definition getMonth :: "host \<Rightarrow> int \<Rightarrow> int" where
  "getMonth h t = MonthFromTime (LocalTime h t)"

definition getDate :: "host \<Rightarrow> int \<Rightarrow> int" where
  "getDate h t = DateFromTime (LocalTime h t)"

definition getHours :: "host \<Rightarrow> int \<Rightarrow> int" where
  "getHours h t = getUTCHours (LocalTime h t)"

definition getMinutes :: "host \<Rightarrow> int \<Rightarrow> int" where
  "getMinutes h t = getUTCMinutes (LocalTime h t)"

definition getSeconds :: "host \<Rightarrow> int \<Rightarrow> int" where
  "getSeconds h t = getUTCSeconds (LocalTime h t)"

definition getTimezoneOffset :: "host \<Rightarrow> int \<Rightarrow> int" where
  "getTimezoneOffset h t = (t - LocalTime h t) div 60000"

text \<open>\<open>Timezones.SetCurrentDate\<close> and \<open>Timezones.GetCurrentDate\<close>.\<close>

definition SetCurrentDate :: "host \<Rightarrow> int option \<Rightarrow> host" where
  "SetCurrentDate h date_obj = h\<lparr>simulated_date := date_obj\<rparr>"

definition GetCurrentDate :: "host \<Rightarrow> int" where
  "GetCurrentDate h = (case simulated_date h of Some d \<Rightarrow> d | None \<Rightarrow> real_now h)"

section \<open>The zone table and the state of an instance\<close>

text \<open>
  A row of \<open>core_tz_db\<close> is an array of ten entries; the fields are named as
  \<open>#initializeTimezoneData\<close> names the positions 0 to 9.  The table itself is a parameter
  of every operation below.  The object that \<open>#initializeTimezoneData\<close> builds from a row
  carries the same ten fields, so \<open>#tz_data\<close> is modelled as the row.
\<close>

record tz_row =
  code :: string
  tz_id :: string
  utc_sdt :: string
  utc_dst :: string
  tz_sdt :: string
  tz_dst :: string
  continent :: string
  lat :: rat
  lon :: rat
  dst_rule :: string

text \<open>The constructor's argument: \<open>null\<close>, a number of hours, or a string.\<close>

datatype hint = Null | HNum int | HStr string

text \<open>
  The private fields of a \<open>Timezones\<close> instance.  The keys of the four \<open>Map\<close> caches are
  strings built from numbers and separators (\<open>`${year}_${month}_${weekday}_${n}`\<close> and the
  like); they determine the tuple they are built from, so the tuples are the keys here.
\<close>

record tz_state =
  default_offset :: hint
  default_offset_mins :: "jsnum option"
  location_cache :: "string option"
  dst_status_cache :: "bool option"
  tz_info_cache :: "jsnum \<times> bool \<rightharpoonup> tz_row list"
  offset_cache :: "string \<rightharpoonup> jsnum"
  dst_cache :: "int \<times> string \<rightharpoonup> bool"
  nth_week_cache :: "int \<times> int \<times> int \<times> int \<rightharpoonup> int"
  tz_data :: "tz_row option"
  spatial_index :: "(nat \<times> rat \<times> rat) list option"

section \<open>DST rule engine\<close>

subsection \<open>Reading the rule\<close>

definition hex_val :: "char \<Rightarrow> nat option" where
  "hex_val c =
     (let k = (of_char c :: nat)
      in if 48 \<le> k \<and> k \<le> 57 then Some (k - 48)
         else if 97 \<le> k \<and> k \<le> 102 then Some (k - 87)
         else if 65 \<le> k \<and> k \<le> 70 then Some (k - 55)
         else None)"

fun hex_digits_val :: "nat \<Rightarrow> string \<Rightarrow> nat" where
  "hex_digits_val acc [] = acc"
| "hex_digits_val acc (c # cs) = hex_digits_val (16 * acc + (case hex_val c of None \<Rightarrow> 0 | Some v \<Rightarrow> v)) cs"

text \<open>
  \<open>parseInt(s, 16)\<close>: white space, one sign and one prefix \<open>0x\<close> or \<open>0X\<close> are skipped, then
  the longest run of hexadecimal digits is read; NaN when that run is empty.
\<close>

definition parseInt16 :: "string \<Rightarrow> jsnum" where
  "parseInt16 s =
     (let s1 = dropWhile is_ws s;
          neg = (case s1 of [] \<Rightarrow> False | c # _ \<Rightarrow> c = CHR ''-'');
          s2 = (case s1 of [] \<Rightarrow> [] | c # r \<Rightarrow> if c = CHR ''-'' \<or> c = CHR ''+'' then r else s1);
          s3 = (if take 2 s2 = ''0x'' \<or> take 2 s2 = ''0X'' then drop 2 s2 else s2);
          ds = takeWhile (\<lambda>c. hex_val c \<noteq> None) s3
      in if ds = [] then NaN
         else Num ((if neg then - 1 else 1) * int (hex_digits_val 0 ds)))"

text \<open>The operand conversion of the bitwise operators: NaN is 0, a number wraps to 32 bits.\<close>

definition ToInt32 :: "jsnum \<Rightarrow> int" where
  "ToInt32 x = (case x of NaN \<Rightarrow> 0 | Num n \<Rightarrow> (n + 2 ^ 31) mod 2 ^ 32 - 2 ^ 31)"

text \<open>The four fields as \<open>#isDstPeriod\<close> and \<open>getTimeUntilNextDstChange\<close> extract them.\<close>

definition start_month :: "jsnum \<Rightarrow> int" where
  "start_month rule = ToInt32 rule AND 15"

definition start_week :: "jsnum \<Rightarrow> int" where
  "start_week rule = drop_bit 4 (ToInt32 rule) AND 7"

definition end_month :: "jsnum \<Rightarrow> int" where
  "end_month rule = drop_bit 8 (ToInt32 rule) AND 15"

definition end_week :: "jsnum \<Rightarrow> int" where
  "end_week rule = drop_bit 12 (ToInt32 rule) AND 7"

subsection \<open>The n-th weekday of a month\<close>

text \<open>The remainder operator \<open>%\<close> of JavaScript takes the sign of the dividend.\<close>

definition js_rem :: "int \<Rightarrow> int \<Rightarrow> int" where
  "js_rem a b = sgn a * (\<bar>a\<bar> mod \<bar>b\<bar>)"

text \<open>\<open>#nthWeekdayOfMonth\<close> after the cache lookup: the computation done on a miss.\<close>

definition nthWeekdayOfMonth_compute :: "int \<Rightarrow> int \<Rightarrow> int \<Rightarrow> int \<Rightarrow> int" where
  "nthWeekdayOfMonth_compute year month weekday n =
     (let date0 = Date_UTC year (month - 1) 1 0 0 0;
          day = getUTCDay date0;
          date1 = (if n = 0
                   then (let diff = js_rem (weekday - day + 7) 7
                         in setUTCDate date0 (1 + diff))
                   else (let diff = weekday - day
                         in setUTCDate date0 (1 + diff + (if diff < 0 then 7 else 0) + (n - 1) * 7)));
          date2 = (if getUTCMonth date1 \<noteq> month - 1
                   then setUTCDate date1 (getUTCDate date1 - 7)
                   else date1)
      in getUTCDate date2)"

definition nthWeekdayOfMonth :: "tz_state \<Rightarrow> int \<Rightarrow> int \<Rightarrow> int \<Rightarrow> int \<Rightarrow> int \<times> tz_state" where
  "nthWeekdayOfMonth st year month weekday n =
     (case nth_week_cache st (year, month, weekday, n) of
        Some r \<Rightarrow> (r, st)
      | None \<Rightarrow>
          (let result = nthWeekdayOfMonth_compute year month weekday n
           in (result, st\<lparr>nth_week_cache := (nth_week_cache st)((year, month, weekday, n) \<mapsto> result)\<rparr>)))"

subsection \<open>DST membership\<close>

text \<open>
  \<open>#isDstPeriod(date, dst_rule)\<close>.  The year and the compared instant \<open>utc_date\<close> are built
  from the host-local calendar fields of \<open>date\<close>.
\<close>

definition isDstPeriod :: "host \<Rightarrow> tz_state \<Rightarrow> int \<Rightarrow> string \<Rightarrow> bool \<times> tz_state" where
  "isDstPeriod h st date rule_str =
     (case dst_cache st (date, rule_str) of
        Some r \<Rightarrow> (r, st)
      | None \<Rightarrow>
          if rule_str = ''00'' then (False, st)
          else
            (let year = getFullYear h date;
                 rule = parseInt16 rule_str;
                 (start_day, st1) = nthWeekdayOfMonth st year (start_month rule) 0 (start_week rule);
                 (end_day, st2) = nthWeekdayOfMonth st1 year (end_month rule) 0 (end_week rule);
                 start = Date_UTC year (start_month rule - 1) start_day 2 0 0;
                 end = Date_UTC year (end_month rule - 1) end_day 2 0 0;
                 utc_date = Date_UTC (getFullYear h date) (getMonth h date) (getDate h date)
                              (getHours h date) (getMinutes h date) (getSeconds h date);
                 result = (if start \<le> end then utc_date \<ge> start \<and> utc_date < end
                           else utc_date \<ge> start \<or> utc_date < end)
             in (result, st2\<lparr>dst_cache := (dst_cache st2)((date, rule_str) \<mapsto> result)\<rparr>)))"

text \<open>
  The same computation with the two day numbers taken from \<open>nthWeekdayOfMonth_compute\<close>:
  what \<open>#isDstPeriod\<close> returns when neither cache holds a stale entry.
  \<open>calculateDstDate_compute year month week\<close> is the instant at 02:00 UTC on the computed
  Sunday, as the local function \<open>calculateDstDate\<close> of \<open>getTimeUntilNextDstChange\<close> and the
  variables \<open>start\<close> and \<open>end\<close> of \<open>#isDstPeriod\<close> build it.
\<close>

definition calculateDstDate_compute :: "int \<Rightarrow> int \<Rightarrow> int \<Rightarrow> int" where
  "calculateDstDate_compute year month week =
     Date_UTC year (month - 1) (nthWeekdayOfMonth_compute year month 0 week) 2 0 0"

definition isDstPeriod_compute :: "host \<Rightarrow> int \<Rightarrow> string \<Rightarrow> bool" where
  "isDstPeriod_compute h date rule_str =
     (if rule_str = ''00'' then False
      else
        (let year = getFullYear h date;
             rule = parseInt16 rule_str;
             start = calculateDstDate_compute year (start_month rule) (start_week rule);
             end = calculateDstDate_compute year (end_month rule) (end_week rule);
             utc_date = Date_UTC (getFullYear h date) (getMonth h date) (getDate h date)
                          (getHours h date) (getMinutes h date) (getSeconds h date)
         in if start \<le> end then utc_date \<ge> start \<and> utc_date < end
            else utc_date \<ge> start \<or> utc_date < end))"



subsection \<open>What the n-th and the last occurrence of a weekday are\<close>

text \<open>
  Day \<open>d\<close> of month \<open>month\<close> (1 is January) exists, in terms of the host's calendar: building
  the date does not leave the month.
\<close>

definition day_in_month :: "int \<Rightarrow> int \<Rightarrow> int \<Rightarrow> bool" where
  "day_in_month year month d =
     (1 \<le> d \<and> getUTCMonth (Date_UTC year (month - 1) d 0 0 0) = month - 1)"

definition is_nth_occurrence :: "int \<Rightarrow> int \<Rightarrow> int \<Rightarrow> int \<Rightarrow> int \<Rightarrow> bool" where
  "is_nth_occurrence year month weekday n d =
     (day_in_month year month d \<and> getUTCDay (Date_UTC year (month - 1) d 0 0 0) = weekday
      \<and> (d - 1) div 7 + 1 = n)"

definition is_last_occurrence :: "int \<Rightarrow> int \<Rightarrow> int \<Rightarrow> int \<Rightarrow> bool" where
  "is_last_occurrence year month weekday d =
     (day_in_month year month d \<and> getUTCDay (Date_UTC year (month - 1) d 0 0 0) = weekday
      \<and> \<not> day_in_month year month (d + 7))"

section \<open>Construction\<close>

definition toLowerCase :: "string \<Rightarrow> string" where
  "toLowerCase s =
     map (\<lambda>c. if 65 \<le> (of_char c :: nat) \<and> (of_char c :: nat) \<le> 90
               then char_of ((of_char c :: nat) + 32) else c) s"

definition startsWith :: "string \<Rightarrow> string \<Rightarrow> bool" where
  "startsWith s p = (take (length p) s = p)"

text \<open>\<open>#findTZbyAbbreviation\<close> and \<open>#initializeTimezoneData\<close>.\<close>

definition findTZbyAbbreviation :: "tz_row list \<Rightarrow> string \<Rightarrow> tz_row option" where
  "findTZbyAbbreviation db identifier =
     find (\<lambda>tz. code tz = identifier \<or> tz_sdt tz = identifier \<or> tz_dst tz = identifier) db"

definition initializeTimezoneData :: "tz_row list \<Rightarrow> string \<Rightarrow> tz_row option" where
  "initializeTimezoneData db identifier =
     (case find (\<lambda>tz. tz_id tz = identifier) db of
        Some tz_entry \<Rightarrow> Some tz_entry
      | None \<Rightarrow> findTZbyAbbreviation db identifier)"

text \<open>
  The constructor.  (The accessor it installs with \<open>Object.defineProperty\<close> is a public
  property named by the string \<open>'#default_offset_mins'\<close>; no code reads it, and the private
  field of that name is a different slot, so \<open>#initializeDefaultOffset\<close> is never run.)
\<close>

definition Timezones :: "tz_row list \<Rightarrow> hint \<Rightarrow> tz_state" where
  "Timezones db hint_arg =
     \<lparr>default_offset =
        (case hint_arg of
           HStr s \<Rightarrow> if startsWith (toLowerCase s) ''utc'' then HStr (drop 3 s) else hint_arg
         | _ \<Rightarrow> hint_arg),
      default_offset_mins = None,
      location_cache = None,
      dst_status_cache = None,
      tz_info_cache = Map.empty,
      offset_cache = Map.empty,
      dst_cache = Map.empty,
      nth_week_cache = Map.empty,
      tz_data = (case hint_arg of HStr s \<Rightarrow> initializeTimezoneData db s | _ \<Rightarrow> None),
      spatial_index = None\<rparr>"

section \<open>Zone resolver\<close>

subsection \<open>Offsets in canonical form\<close>

text \<open>\<open>#offset2str\<close> on a number that may be NaN: every field of the template prints \<open>NaN\<close>.\<close>

definition offset2str_js :: "jsnum \<Rightarrow> string" where
  "offset2str_js x = (case x of Num n \<Rightarrow> offset2str n | NaN \<Rightarrow> ''-NaN:NaN'')"

text \<open>The match of \<open>/^([+-])(\\d{2}):?(\\d{2})$/\<close>: the sign and the two digit pairs.\<close>

fun match_sign_HHMM :: "string \<Rightarrow> (char \<times> string \<times> string) option" where
  "match_sign_HHMM [s, a, b, c, d] =
     (if (s = CHR ''+'' \<or> s = CHR ''-'') \<and> is_digit a \<and> is_digit b \<and> is_digit c \<and> is_digit d
      then Some (s, [a, b], [c, d]) else None)"
| "match_sign_HHMM [s, a, b, k, c, d] =
     (if (s = CHR ''+'' \<or> s = CHR ''-'') \<and> is_digit a \<and> is_digit b \<and> k = CHR '':''
         \<and> is_digit c \<and> is_digit d
      then Some (s, [a, b], [c, d]) else None)"
| "match_sign_HHMM _ = None"

text \<open>\<open>#normalizeOffset\<close> on a number and on a string.\<close>

definition normalizeOffset_num :: "jsnum \<Rightarrow> string" where
  "normalizeOffset_num tz_offset =
     (case tz_offset of
        NaN \<Rightarrow> ''+NaN:NaN''
      | Num v \<Rightarrow>
          (let h = nat \<bar>v\<bar> div 60;
               m = nat \<bar>v\<bar> mod 60
           in (if v < 0 then CHR ''-'' else CHR ''+'') # pad h 2 @ CHR '':'' # pad m 2))"

definition normalizeOffset_str :: "string \<Rightarrow> error + string" where
  "normalizeOffset_str tz_offset =
     (case match_sign_HHMM tz_offset of
        Some (s, hh, mm) \<Rightarrow> Inr (s # hh @ CHR '':'' # mm)
      | None \<Rightarrow> Inl InvalidOffsetFormat)"

text \<open>
  The callback of the \<open>filter\<close> in \<open>#findTimeZoneByOffset\<close> normalises both offsets of a row
  before it compares one of them; the first row with a malformed offset raises.
\<close>

fun filter_by_offset :: "bool \<Rightarrow> string \<Rightarrow> tz_row list \<Rightarrow> error + tz_row list" where
  "filter_by_offset is_dst_now offset_str [] = Inr []"
| "filter_by_offset is_dst_now offset_str (tz # rest) =
     (case normalizeOffset_str (utc_sdt tz) of
        Inl e \<Rightarrow> Inl e
      | Inr std_offset \<Rightarrow>
          (case normalizeOffset_str (utc_dst tz) of
             Inl e \<Rightarrow> Inl e
           | Inr dst_offset \<Rightarrow>
               (case filter_by_offset is_dst_now offset_str rest of
                  Inl e \<Rightarrow> Inl e
                | Inr ms \<Rightarrow>
                    Inr (if (if is_dst_now then dst_offset else std_offset) = offset_str
                         then tz # ms else ms))))"

definition findTimeZoneByOffset ::
    "tz_row list \<Rightarrow> tz_state \<Rightarrow> jsnum \<Rightarrow> bool \<Rightarrow> error + (tz_row list \<times> tz_state)" where
  "findTimeZoneByOffset db st tz_offset is_dst_now =
     (case tz_info_cache st (tz_offset, is_dst_now) of
        Some ms \<Rightarrow> Inr (ms, st)
      | None \<Rightarrow>
          (case filter_by_offset is_dst_now (normalizeOffset_num tz_offset) db of
             Inl e \<Rightarrow> Inl e
           | Inr matching_tzs \<Rightarrow>
               Inr (matching_tzs,
                    st\<lparr>tz_info_cache := (tz_info_cache st)((tz_offset, is_dst_now) \<mapsto> matching_tzs)\<rparr>)))"

text \<open>
  \<open>#isDstNow\<close> reads the property \<open>utc_dst\<close> of each row.  A row is an array: its properties
  are the indices 0 to 9, and the read of a named property gives \<open>undefined\<close>, which is
  never strictly equal to the offset string.
\<close>

definition row_property_utc_dst :: "tz_row \<Rightarrow> string option" where
  "row_property_utc_dst tz = None"

definition isDstNow :: "tz_row list \<Rightarrow> tz_state \<Rightarrow> jsnum \<Rightarrow> bool" where
  "isDstNow db st tz_offset =
     (case default_offset_mins st of
        Some d \<Rightarrow> (let offset_str = offset2str_js d
                  in list_ex (\<lambda>tz. row_property_utc_dst tz = Some offset_str) db)
      | None \<Rightarrow> (let offset_str = offset2str_js tz_offset
                 in list_ex (\<lambda>tz. row_property_utc_dst tz = Some offset_str) db))"

subsection \<open>String similarity\<close>

text \<open>
  \<open>#calculateStringSimilarity\<close>.  Either argument may be \<open>undefined\<close> (a destructured part
  that the split did not produce); \<open>toLowerCase\<close> on it raises a TypeError.  The score is
  computed in exact rational arithmetic; the source computes it in double precision.
\<close>

definition char_at :: "string \<Rightarrow> nat \<Rightarrow> char option" where
  "char_at s i = (if i < length s then Some (s ! i) else None)"

definition matching_positions :: "string \<Rightarrow> string \<Rightarrow> nat list" where
  "matching_positions s1 s2 =
     filter (\<lambda>i. char_at s1 i = char_at s2 i) [0..<max (length s1) (length s2)]"

text \<open>
  The quantities of the loop and of the final formula, on the two lower-cased strings:
  \<open>char_ratio\<close>, \<open>len_ratio\<close>, the weight \<open>(max_len - i) / max_len\<close> of a matching position,
  their sum \<open>pos_score\<close>, and the two weights \<open>char_weight\<close> and \<open>pos_weight\<close>.
\<close>

definition char_ratio :: "string \<Rightarrow> string \<Rightarrow> rat" where
  "char_ratio str1 str2 =
     of_nat (length (matching_positions str1 str2)) / of_nat (max (length str1) (length str2))"

definition len_ratio :: "string \<Rightarrow> string \<Rightarrow> rat" where
  "len_ratio str1 str2 =
     of_nat (min (length str1) (length str2)) / of_nat (max (length str1) (length str2))"

definition position_weight :: "nat \<Rightarrow> nat \<Rightarrow> rat" where
  "position_weight max_len i = of_nat (max_len - i) / of_nat max_len"

definition pos_score :: "string \<Rightarrow> string \<Rightarrow> rat" where
  "pos_score str1 str2 =
     (\<Sum>i\<leftarrow>matching_positions str1 str2. position_weight (max (length str1) (length str2)) i)"

definition char_weight :: "string \<Rightarrow> string \<Rightarrow> rat" where
  "char_weight str1 str2 = 8 / 10 + (15 / 100) * (1 - len_ratio str1 str2)"

definition pos_weight :: "string \<Rightarrow> string \<Rightarrow> rat" where
  "pos_weight str1 str2 = 2 / 10 - (15 / 100) * (1 - len_ratio str1 str2)"

definition calculateStringSimilarity :: "string option \<Rightarrow> string option \<Rightarrow> error + rat" where
  "calculateStringSimilarity a b =
     (case a of
        None \<Rightarrow> Inl TypeError
      | Some a' \<Rightarrow>
          (case b of
             None \<Rightarrow> Inl TypeError
           | Some b' \<Rightarrow>
               (let str1 = toLowerCase a';
                    str2 = toLowerCase b'
                in if str1 = str2 then Inr 1
                   else
                     (let similarity = char_ratio str1 str2 * char_weight str1 str2
                                       + pos_score str1 str2 * pos_weight str1 str2
                      in Inr similarity))))"

text \<open>The city token of a zone identifier: the second part of \<open>tz[1].split('/')\<close>.\<close>

definition second_part :: "string \<Rightarrow> string option" where
  "second_part s = (case split_on (CHR ''/'') s of _ # c # _ \<Rightarrow> Some c | _ \<Rightarrow> None)"

definition first_part :: "string \<Rightarrow> string" where
  "first_part s = (case split_on (CHR ''/'') s of c # _ \<Rightarrow> c | [] \<Rightarrow> [])"

definition similarity_threshold :: rat where
  "similarity_threshold = 5 / 10"

text \<open>
  \<open>#findBestMatch\<close>: the loop keeps the first candidate with the strictly greatest score
  above 0; the loop state is \<open>(best_match, best_similarity)\<close>.
\<close>

fun findBestMatch_loop ::
    "string option \<Rightarrow> tz_row list \<Rightarrow> tz_row option \<times> rat \<Rightarrow> error + (tz_row option \<times> rat)" where
  "findBestMatch_loop city [] acc = Inr acc"
| "findBestMatch_loop city (tz # rest) (best_match, best_similarity) =
     (case calculateStringSimilarity city (second_part (tz_id tz)) of
        Inl e \<Rightarrow> Inl e
      | Inr similarity \<Rightarrow>
          if similarity > best_similarity
          then findBestMatch_loop city rest (Some tz, similarity)
          else findBestMatch_loop city rest (best_match, best_similarity))"

definition findBestMatch :: "string option \<Rightarrow> tz_row list \<Rightarrow> error + (tz_row \<times> rat) option" where
  "findBestMatch city tzs =
     (case findBestMatch_loop city tzs (None, 0) of
        Inl e \<Rightarrow> Inl e
      | Inr (best_match, best_similarity) \<Rightarrow>
          (case best_match of
             Some tz \<Rightarrow> if best_similarity > similarity_threshold
                        then Inr (Some (tz, best_similarity)) else Inr None
           | None \<Rightarrow> Inr None))"

subsection \<open>Choosing among candidates\<close>

text \<open>\<open>String.prototype.includes\<close>.\<close>

definition str_includes :: "string \<Rightarrow> string \<Rightarrow> bool" where
  "str_includes s sub = list_ex (\<lambda>i. take (length sub) (drop i s) = sub) [0..<Suc (length s)]"

text \<open>\<open>xs[0][1]\<close>: the identifier of the first row; on an empty array the read raises.\<close>

definition first_tz_id :: "tz_row list \<Rightarrow> error + string option" where
  "first_tz_id xs = (case xs of [] \<Rightarrow> Inl TypeError | tz # _ \<Rightarrow> Inr (Some (tz_id tz)))"

text \<open>\<open>#selectBestMatchingTimeZone\<close>; \<open>None\<close> is the result \<open>null\<close>.\<close>

definition selectBestMatchingTimeZone :: "tz_state \<Rightarrow> tz_row list \<Rightarrow> error + string option" where
  "selectBestMatchingTimeZone st matching_tzs =
     (if length matching_tzs = 0 then Inr None
      else if length matching_tzs = 1 then first_tz_id matching_tzs
      else
        (let non_deprecated = filter (\<lambda>tz. \<not> str_includes (tz_id tz) ''Etc/'') matching_tzs;
             filtered_tzs = (if length non_deprecated > 0 then non_deprecated else matching_tzs)
         in case default_offset st of
              HStr d \<Rightarrow>
                if d = [] then first_tz_id filtered_tzs
                else
                  (let continent = first_part d;
                       city = second_part d;
                       continent_matches =
                         filter (\<lambda>tz. startsWith (tz_id tz) (continent @ ''/'')) filtered_tzs
                   in if length continent_matches > 0
                      then (case find (\<lambda>tz. tz_id tz = d) continent_matches of
                              Some exact_match \<Rightarrow> Inr (Some (tz_id exact_match))
                            | None \<Rightarrow>
                                (case findBestMatch city continent_matches of
                                   Inl e \<Rightarrow> Inl e
                                 | Inr (Some (tz, similarity)) \<Rightarrow> Inr (Some (tz_id tz))
                                 | Inr None \<Rightarrow> first_tz_id continent_matches))
                      else first_tz_id filtered_tzs)
            | _ \<Rightarrow> first_tz_id filtered_tzs))"

subsection \<open>The offset of a resolved zone\<close>

definition str2offset_st :: "tz_state \<Rightarrow> string \<Rightarrow> jsnum \<times> tz_state" where
  "str2offset_st st offset_str =
     (let (r, c) = str2offset (offset_cache st) offset_str in (r, st\<lparr>offset_cache := c\<rparr>))"

definition CONTINENTS :: "string list" where
  "CONTINENTS = [''Africa'', ''America'', ''Antarctica'', ''Asia'', ''Atlantic'', ''Australia'',
                 ''Europe'', ''Indian'', ''Pacific'']"

text \<open>The test \<open>tz_city && tz_city.toLowerCase().includes(city.toLowerCase())\<close>.\<close>

definition city_includes :: "tz_row \<Rightarrow> string \<Rightarrow> bool" where
  "city_includes tz city =
     (case second_part (tz_id tz) of
        None \<Rightarrow> False
      | Some tz_city \<Rightarrow> tz_city \<noteq> [] \<and> str_includes (toLowerCase tz_city) (toLowerCase city))"

definition guessTimeZoneFromPartialId ::
    "tz_row list \<Rightarrow> tz_state \<Rightarrow> string \<Rightarrow> string \<Rightarrow> error + (jsnum \<times> tz_state)" where
  "guessTimeZoneFromPartialId db st continent_arg city =
     (if continent_arg \<notin> set CONTINENTS
      then (case filter (\<lambda>tz. city_includes tz city) db of
              tz # _ \<Rightarrow> Inr (str2offset_st st (utc_sdt tz))
            | [] \<Rightarrow> Inl UnableToDetermineOffset)
      else (case filter (\<lambda>tz. first_part (tz_id tz) = continent_arg \<and> city_includes tz city) db of
              tz # _ \<Rightarrow> Inr (str2offset_st st (utc_sdt tz))
            | [] \<Rightarrow>
                (case find (\<lambda>tz. startsWith (tz_id tz) (continent_arg @ ''/'')) db of
                   Some fallback \<Rightarrow> Inr (str2offset_st st (utc_sdt fallback))
                 | None \<Rightarrow> Inl UnableToDetermineOffset)))"

definition determineOffset :: "tz_row list \<Rightarrow> tz_state \<Rightarrow> string \<Rightarrow> error + (jsnum \<times> tz_state)" where
  "determineOffset db st timezone =
     (if CHR ''/'' \<notin> set timezone then Inl InvalidTimezoneFormat
      else
        (let continent_part = takeWhile (\<lambda>c. c \<noteq> CHR ''/'') timezone;
             city = drop 1 (dropWhile (\<lambda>c. c \<noteq> CHR ''/'') timezone)
         in if continent_part = [] \<or> city = [] then Inl InvalidTimezoneFormat
            else (case filter (\<lambda>tz. tz_id tz = timezone) db of
                    tz # _ \<Rightarrow> Inr (str2offset_st st (utc_sdt tz))
                  | [] \<Rightarrow> guessTimeZoneFromPartialId db st continent_part city)))"

subsection \<open>getLocation\<close>

text \<open>The test of \<open>#HH_MM_OFFSET_REGEX\<close>, \<open>/^[-+]?\\d{1,2}(:\\d{2})?$/\<close>.\<close>

fun digits_opt_minutes :: "string \<Rightarrow> bool" where
  "digits_opt_minutes [a] = is_digit a"
| "digits_opt_minutes [a, b] = (is_digit a \<and> is_digit b)"
| "digits_opt_minutes [a, k, c, d] = (is_digit a \<and> k = CHR '':'' \<and> is_digit c \<and> is_digit d)"
| "digits_opt_minutes [a, b, k, c, d] =
     (is_digit a \<and> is_digit b \<and> k = CHR '':'' \<and> is_digit c \<and> is_digit d)"
| "digits_opt_minutes _ = False"

definition HH_MM_OFFSET_REGEX_test :: "string \<Rightarrow> bool" where
  "HH_MM_OFFSET_REGEX_test s =
     (case s of
        [] \<Rightarrow> False
      | c # r \<Rightarrow> if c = CHR ''-'' \<or> c = CHR ''+'' then digits_opt_minutes r
                 else digits_opt_minutes s)"

definition calculateTZ :: "host \<Rightarrow> tz_state \<Rightarrow> int \<Rightarrow> jsnum" where
  "calculateTZ h st date_with_offset =
     (case default_offset_mins st of
        Some d \<Rightarrow> d
      | None \<Rightarrow> Num (- getTimezoneOffset h date_with_offset))"

text \<open>The truth value of a location: \<open>null\<close> and the empty string are falsy.\<close>

definition falsy_location :: "string option \<Rightarrow> bool" where
  "falsy_location l = (l = None \<or> l = Some [])"

text \<open>
  The statement \<open>if (!location && this.#default_offset_mins !== null)\<close> of \<open>getLocation\<close>: the
  candidates for the hint's own offset.
\<close>

definition locate_by_default_mins ::
    "tz_row list \<Rightarrow> tz_state \<Rightarrow> bool \<Rightarrow> string option \<Rightarrow> error + (string option \<times> tz_state)" where
  "locate_by_default_mins db st is_dst_now location =
     (case default_offset_mins st of
        None \<Rightarrow> Inr (location, st)
      | Some mins \<Rightarrow>
          if falsy_location location
          then (case findTimeZoneByOffset db st mins is_dst_now of
                  Inl e \<Rightarrow> Inl e
                | Inr (matching_tzs, st') \<Rightarrow>
                    (case selectBestMatchingTimeZone st' matching_tzs of
                       Inl e \<Rightarrow> Inl e
                     | Inr l \<Rightarrow> Inr (l, st')))
          else Inr (location, st))"

text \<open>
  The block \<open>if (this.#default_offset) { ... }\<close>: the number 0, the empty string and \<open>null\<close>
  are falsy and skip it.
\<close>

definition locate_by_default_offset ::
    "tz_row list \<Rightarrow> tz_state \<Rightarrow> bool \<Rightarrow> error + (string option \<times> tz_state)" where
  "locate_by_default_offset db st is_dst_now =
     (case default_offset st of
        Null \<Rightarrow> Inr (None, st)
      | HNum n \<Rightarrow>
          if n = 0 then Inr (None, st)
          else locate_by_default_mins db (st\<lparr>default_offset_mins := Some (Num (n * 60))\<rparr>)
                 is_dst_now None
      | HStr d \<Rightarrow>
          if d = [] then Inr (None, st)
          else if HH_MM_OFFSET_REGEX_test d
          then (let (r, st1) = str2offset_st st d
                in locate_by_default_mins db (st1\<lparr>default_offset_mins := Some r\<rparr>) is_dst_now None)
          else
            (let continent_matches =
                   filter (\<lambda>tz. startsWith (tz_id tz) (first_part d @ ''/'')) db
             in if length continent_matches > 0
                then (case selectBestMatchingTimeZone st continent_matches of
                        Inl e \<Rightarrow> Inl e
                      | Inr l \<Rightarrow> locate_by_default_mins db st is_dst_now l)
                else locate_by_default_mins db st is_dst_now (Some ''Unknown'')))"

text \<open>
  \<open>getLocation\<close>.  The property \<open>this.country_code\<close> that the last fallback reads is defined
  nowhere, so that branch is never taken.
\<close>

definition getLocation :: "host \<Rightarrow> tz_row list \<Rightarrow> tz_state \<Rightarrow> error + (string \<times> tz_state)" where
  "getLocation h db st =
     (case tz_data st of
        Some d \<Rightarrow> Inr (tz_id d, st)
      | None \<Rightarrow>
          (case location_cache st of
             Some l \<Rightarrow> Inr (l, st)
           | None \<Rightarrow>
               (let cur_time_with_offset = GetCurrentDate h;
                    current_tz_offset = calculateTZ h st cur_time_with_offset;
                    offset_str = offset2str_js current_tz_offset;
                    is_dst_now = isDstNow db st current_tz_offset
                in case locate_by_default_offset db st is_dst_now of
                     Inl e \<Rightarrow> Inl e
                   | Inr (loc1, st1) \<Rightarrow>
                       (case (if falsy_location loc1
                              then (case findTimeZoneByOffset db st1 current_tz_offset is_dst_now of
                                      Inl e \<Rightarrow> Inl e
                                    | Inr (matching_tzs, st') \<Rightarrow>
                                        (case selectBestMatchingTimeZone st' matching_tzs of
                                           Inl e \<Rightarrow> Inl e
                                         | Inr l \<Rightarrow> Inr (l, st')))
                              else Inr (loc1, st1)) of
                          Inl e \<Rightarrow> Inl e
                        | Inr (loc2, st2) \<Rightarrow>
                            (case (if loc2 = None
                                   then (let fallback_timezones =
                                               filter (\<lambda>tz. utc_sdt tz = offset_str \<or> utc_dst tz = offset_str) db
                                         in if length fallback_timezones > 0
                                            then selectBestMatchingTimeZone st2 fallback_timezones
                                            else Inr None)
                                   else Inr loc2) of
                               Inl e \<Rightarrow> Inl e
                             | Inr loc3 \<Rightarrow>
                                 (let location = (case loc3 of None \<Rightarrow> ''Unknown'' | Some l \<Rightarrow> l)
                                  in case (if location \<noteq> ''Unknown''
                                           then (case determineOffset db st2 location of
                                                   Inl e \<Rightarrow> Inl e
                                                 | Inr (r, st3) \<Rightarrow>
                                                     Inr (st3\<lparr>default_offset_mins := Some r\<rparr>))
                                           else Inr st2) of
                                       Inl e \<Rightarrow> Inl e
                                     | Inr st4 \<Rightarrow>
                                         Inr (location, st4\<lparr>location_cache := Some location\<rparr>)))))))"

section \<open>Facade\<close>


text \<open>\<open>getDaylightStatus(location)\<close>; the argument is \<open>None\<close> when the call passes none.\<close>

definition getDaylightStatus ::
    "host \<Rightarrow> tz_row list \<Rightarrow> tz_state \<Rightarrow> string option \<Rightarrow> bool \<times> tz_state" where
  "getDaylightStatus h db st location =
     (case tz_data st of
        Some d \<Rightarrow> isDstPeriod h st (GetCurrentDate h) (dst_rule d)
      | None \<Rightarrow>
          (case dst_status_cache st of
             Some b \<Rightarrow> (b, st)
           | None \<Rightarrow>
               (case find (\<lambda>tz. Some (tz_id tz) = location) db of
                  None \<Rightarrow> (False, st)
                | Some tz_info \<Rightarrow>
                    if dst_rule tz_info = ''00'' then (False, st)
                    else (let (is_dst, st1) = isDstPeriod h st (GetCurrentDate h) (dst_rule tz_info)
                          in (is_dst, st1\<lparr>dst_status_cache := Some is_dst\<rparr>)))))"

definition getLocationAndDaylightStatus ::
    "host \<Rightarrow> tz_row list \<Rightarrow> tz_state \<Rightarrow> error + ((string \<times> bool) \<times> tz_state)" where
  "getLocationAndDaylightStatus h db st =
     (case tz_data st of
        Some d \<Rightarrow>
          (let (is_dst, st1) = getDaylightStatus h db st None
           in Inr ((tz_id d, is_dst), st1))
      | None \<Rightarrow>
          (case getLocation h db st of
             Inl e \<Rightarrow> Inl e
           | Inr (location, st1) \<Rightarrow>
               (let (is_dst, st2) = getDaylightStatus h db st1 None
                in Inr ((location, is_dst), st2))))"

text \<open>\<open>getTimezoneInfo(identifier)\<close>; the identifier is \<open>None\<close> when it is \<open>undefined\<close>.\<close>

definition getTimezoneInfo :: "tz_row list \<Rightarrow> tz_state \<Rightarrow> string option \<Rightarrow> tz_row option" where
  "getTimezoneInfo db st identifier =
     (case identifier of
        None \<Rightarrow> None
      | Some ident \<Rightarrow>
          (case tz_data st of
             Some d \<Rightarrow>
               if tz_id d = ident \<or> code d = ident then Some d
               else (case find (\<lambda>tz. tz_id tz = ident \<or> code tz = ident) db of
                       Some tz_entry \<Rightarrow> Some tz_entry
                     | None \<Rightarrow> findTZbyAbbreviation db ident)
           | None \<Rightarrow>
               (case find (\<lambda>tz. tz_id tz = ident \<or> code tz = ident) db of
                  Some tz_entry \<Rightarrow> Some tz_entry
                | None \<Rightarrow> findTZbyAbbreviation db ident)))"

text \<open>
  \<open>getDate()\<close> of the library: the time value of \<open>local_time\<close>, from which every getter of
  the returned object reads its UTC field.  In the sum, \<open>null\<close> counts as 0.
\<close>

definition getDate_tz :: "host \<Rightarrow> tz_row list \<Rightarrow> tz_state \<Rightarrow> error + (jsnum \<times> tz_state)" where
  "getDate_tz h db st =
     (case getLocationAndDaylightStatus h db st of
        Inl e \<Rightarrow> Inl e
      | Inr ((location, is_dst), st1) \<Rightarrow>
          (let (offset_mins, st2) =
                 (case find (\<lambda>tz. tz_id tz = location) db of
                    Some tz_info \<Rightarrow>
                      str2offset_st st1 (if is_dst then utc_dst tz_info else utc_sdt tz_info)
                  | None \<Rightarrow>
                      ((case default_offset_mins st1 of None \<Rightarrow> Num 0 | Some v \<Rightarrow> v), st1));
               utc_now = GetCurrentDate h
           in Inr ((case offset_mins of NaN \<Rightarrow> NaN | Num v \<Rightarrow> Num (utc_now + v * 60000)), st2)))"

record dst_change =
  next_change :: jsnum
  time_until_change :: jsnum
  change_to_dst :: bool

text \<open>The local function \<open>calculateDstDate\<close> of \<open>getTimeUntilNextDstChange\<close>.\<close>

definition calculateDstDate :: "tz_state \<Rightarrow> int \<Rightarrow> int \<Rightarrow> int \<Rightarrow> int \<times> tz_state" where
  "calculateDstDate st year month week =
     (let (day, st1) = nthWeekdayOfMonth st year month 0 week
      in (Date_UTC year (month - 1) day 2 0 0, st1))"

text \<open>
  \<open>getTimeUntilNextDstChange\<close>; \<open>None\<close> is the result \<open>null\<close>.  When \<open>local_time\<close> is an invalid
  date every number derived from it is NaN, each comparison is false, and the last branch
  is taken.
\<close>

definition getTimeUntilNextDstChange ::
    "host \<Rightarrow> tz_row list \<Rightarrow> tz_state \<Rightarrow> error + (dst_change option \<times> tz_state)" where
  "getTimeUntilNextDstChange h db st =
     (case getDate_tz h db st of
        Inl e \<Rightarrow> Inl e
      | Inr (now, st1) \<Rightarrow>
          (case getTimezoneInfo db st1 (map_option tz_id (tz_data st1)) of
             None \<Rightarrow> Inr (None, st1)
           | Some tz_info \<Rightarrow>
               if dst_rule tz_info = ''00'' then Inr (None, st1)
               else
                 (case now of
                    NaN \<Rightarrow>
                      Inr (Some \<lparr>next_change = NaN, time_until_change = NaN, change_to_dst = True\<rparr>,
                           st1)
                  | Num local_time \<Rightarrow>
                      (let cur_year = getUTCFullYear local_time;
                           next_year = cur_year + 1;
                           rule = parseInt16 (dst_rule tz_info);
                           (dst_start_cur, st2) =
                              calculateDstDate st1 cur_year (start_month rule) (start_week rule);
                           (dst_end_cur, st3) =
                              calculateDstDate st2 cur_year (end_month rule) (end_week rule);
                           (dst_start_next, st4) =
                              calculateDstDate st3 next_year (start_month rule) (start_week rule);
                           now_utc = Date_UTC (getUTCFullYear local_time) (getUTCMonth local_time)
                                       (getUTCDate local_time) (getUTCHours local_time)
                                       (getUTCMinutes local_time) (getUTCSeconds local_time);
                           (next, to_dst) =
                              (if now_utc < dst_start_cur then (dst_start_cur, True)
                               else if now_utc < dst_end_cur then (dst_end_cur, False)
                               else (dst_start_next, True))
                       in Inr (Some \<lparr>next_change = Num next,
                                     time_until_change = Num (next - now_utc),
                                     change_to_dst = to_dst\<rparr>, st4)))))"

section \<open>Geo approximator\<close>

definition MAX_SAFE_INTEGER :: rat where
  "MAX_SAFE_INTEGER = 9007199254740991"

text \<open>The index built on the first call: \<open>{index, lat: tz[7] * 10000 + 0.5, lon: tz[8] * 10000 + 0.5}\<close>.\<close>

definition build_spatial_index :: "tz_row list \<Rightarrow> (nat \<times> rat \<times> rat) list" where
  "build_spatial_index db =
     map (\<lambda>(i, tz). (i, lat tz * 10000 + 1 / 2, lon tz * 10000 + 1 / 2)) (enumerate 0 db)"

text \<open>The scan; the loop state is \<open>(nearest_index, min_dist)\<close>.\<close>

fun nearest_loop :: "rat \<Rightarrow> rat \<Rightarrow> (nat \<times> rat \<times> rat) list \<Rightarrow> nat \<times> rat \<Rightarrow> nat \<times> rat" where
  "nearest_loop la lo [] acc = acc"
| "nearest_loop la lo ((idx, tz_lat, tz_lon) # rest) (nearest_index, min_dist) =
     (let lat_diff = (if la > tz_lat then la - tz_lat else tz_lat - la);
          lon_diff = (if lo > tz_lon then lo - tz_lon else tz_lon - lo);
          dist = lat_diff + lon_diff
      in if dist < min_dist then nearest_loop la lo rest (idx, dist)
         else nearest_loop la lo rest (nearest_index, min_dist))"

definition getApproxLocation ::
    "tz_row list \<Rightarrow> tz_state \<Rightarrow> rat \<Rightarrow> rat \<Rightarrow> error + (string \<times> tz_state)" where
  "getApproxLocation db st latitude longitude =
     (let st1 = (case spatial_index st of
                   None \<Rightarrow> st\<lparr>spatial_index := Some (build_spatial_index db)\<rparr>
                 | Some _ \<Rightarrow> st);
          idx = (case spatial_index st1 of None \<Rightarrow> [] | Some i \<Rightarrow> i);
          la = latitude * 10000;
          lo = longitude * 10000;
          (nearest_index, min_dist) = nearest_loop la lo idx (0, MAX_SAFE_INTEGER)
      in if nearest_index < length db then Inr (tz_id (db ! nearest_index), st1)
         else Inl TypeError)"

text \<open>
  What the nearest entry by Manhattan distance on the coordinates scaled by 10000 is: the
  distance of an entry, and the first position of the table where it is least.
\<close>

definition manhattan :: "rat \<Rightarrow> rat \<Rightarrow> tz_row \<Rightarrow> rat" where
  "manhattan latitude longitude tz =
     \<bar>latitude * 10000 - lat tz * 10000\<bar> + \<bar>longitude * 10000 - lon tz * 10000\<bar>"

definition is_first_nearest :: "tz_row list \<Rightarrow> rat \<Rightarrow> rat \<Rightarrow> nat \<Rightarrow> bool" where
  "is_first_nearest db latitude longitude i =
     (i < length db
      \<and> list_all (\<lambda>tz. manhattan latitude longitude (db ! i) \<le> manhattan latitude longitude tz) db
      \<and> list_all (\<lambda>tz. manhattan latitude longitude (db ! i) < manhattan latitude longitude tz)
           (take i db))"

section \<open>Example hosts and table rows\<close>

text \<open>
  Concrete inputs for evaluating the operations: a host on UTC, a host one hour east of
  UTC, and rows in the shape of the row that the README prints for \<open>America/New_York\<close>.
\<close>

definition host_utc :: "int \<Rightarrow> host" where
  "host_utc now = \<lparr>LocalTZA = (\<lambda>t. 0), real_now = now, simulated_date = None\<rparr>"


definition row_New_York :: tz_row where
  "row_New_York =
     \<lparr>code = ''US'', tz_id = ''America/New_York'', utc_sdt = ''-05:00'', utc_dst = ''-04:00'',
      tz_sdt = ''EST'', tz_dst = ''EDT'', continent = ''northamerica'',
      lat = 407127 / 10000, lon = - 74006 / 1000, dst_rule = ''B13''\<rparr>"

definition row_Halifax :: tz_row where
  "row_Halifax =
     \<lparr>code = ''CA'', tz_id = ''America/Halifax'', utc_sdt = ''-04:00'', utc_dst = ''-03:00'',
      tz_sdt = ''AST'', tz_dst = ''ADT'', continent = ''northamerica'',
      lat = 446488 / 10000, lon = - 635752 / 10000, dst_rule = ''B13''\<rparr>"


definition row_Sydney :: tz_row where
  "row_Sydney =
     \<lparr>code = ''AU'', tz_id = ''Australia/Sydney'', utc_sdt = ''+10:00'', utc_dst = ''+11:00'',
      tz_sdt = ''AEST'', tz_dst = ''AEDT'', continent = ''australia'',
      lat = - 338688 / 10000, lon = 1512093 / 10000, dst_rule = ''141A''\<rparr>"

definition row_London :: tz_row where
  "row_London =
     \<lparr>code = ''GB'', tz_id = ''Europe/London'', utc_sdt = ''+00:00'', utc_dst = ''+01:00'',
      tz_sdt = ''GMT'', tz_dst = ''BST'', continent = ''europe'',
      lat = 515072 / 10000, lon = - 1276 / 10000, dst_rule = ''A03''\<rparr>"

definition row_Warsaw :: tz_row where
  "row_Warsaw =
     \<lparr>code = ''PL'', tz_id = ''Europe/Warsaw'', utc_sdt = ''+01:00'', utc_dst = ''+02:00'',
      tz_sdt = ''CET'', tz_dst = ''CEST'', continent = ''europe'',
      lat = 522297 / 10000, lon = 210122 / 10000, dst_rule = ''A03''\<rparr>"

definition row_Etc_GMT_plus_4 :: tz_row where
  "row_Etc_GMT_plus_4 =
     \<lparr>code = ''ZZ'', tz_id = ''Etc/GMT+4'', utc_sdt = ''-04:00'', utc_dst = ''-04:00'',
      tz_sdt = ''-04'', tz_dst = ''-04'', continent = ''etc'',
      lat = 0, lon = - 60, dst_rule = ''00''\<rparr>"

text \<open>Two rows on the meridian, at latitudes 0 and 2, for the nearest-zone scan.\<close>

definition row_lat0 :: tz_row where
  "row_lat0 =
     \<lparr>code = ''AA'', tz_id = ''Atlantic/Lat0'', utc_sdt = ''+00:00'', utc_dst = ''+00:00'',
      tz_sdt = ''GMT'', tz_dst = ''GMT'', continent = ''atlantic'',
      lat = 0, lon = 0, dst_rule = ''00''\<rparr>"

definition row_lat2 :: tz_row where
  "row_lat2 =
     \<lparr>code = ''AB'', tz_id = ''Atlantic/Lat2'', utc_sdt = ''+00:00'', utc_dst = ''+00:00'',
      tz_sdt = ''GMT'', tz_dst = ''GMT'', continent = ''atlantic'',
      lat = 2, lon = 0, dst_rule = ''00''\<rparr>"

section \<open>Reference notions for the claims\<close>

text \<open>The soonest instant of a list that lies strictly after \<open>now\<close>, if there is one.\<close>

text \<open>
  The offset in minutes that a construction hint stands for when it is a number of hours
  other than 0 or a string that \<open>#HH_MM_OFFSET_REGEX\<close> accepts.
\<close>

definition hint_offset :: "hint \<Rightarrow> jsnum option" where
  "hint_offset hn =
     (case hn of
        Null \<Rightarrow> None
      | HNum n \<Rightarrow> if n = 0 then None else Some (Num (n * 60))
      | HStr d \<Rightarrow> if HH_MM_OFFSET_REGEX_test d then Some (str2offset_compute d) else None)"

text \<open>A row whose standard offset, in canonical form, is the canonical form of \<open>m\<close> minutes.\<close>

definition std_offset_matches :: "jsnum \<Rightarrow> tz_row \<Rightarrow> bool" where
  "std_offset_matches m tz = (normalizeOffset_str (utc_sdt tz) = Inr (normalizeOffset_num m))"

text \<open>
  The candidates that remain after the preference for identifiers without \<open>Etc/\<close>: those
  without it if there are any, all of them otherwise.
\<close>

definition prefer_non_deprecated :: "tz_row list \<Rightarrow> tz_row list" where
  "prefer_non_deprecated cands =
     (case filter (\<lambda>tz. \<not> str_includes (tz_id tz) ''Etc/'') cands of
        [] \<Rightarrow> cands
      | tz # rest \<Rightarrow> tz # rest)"

text \<open>Both offsets of every row have one of the two shapes that \<open>#normalizeOffset\<close> accepts.\<close>

definition offsets_well_formed :: "tz_row list \<Rightarrow> bool" where
  "offsets_well_formed db =
     list_all (\<lambda>tz. match_sign_HHMM (utc_sdt tz) \<noteq> None \<and> match_sign_HHMM (utc_dst tz) \<noteq> None) db"

text \<open>No identifier of the table starts with the hint string followed by a slash.\<close>

definition no_zone_under_hint :: "tz_row list \<Rightarrow> hint \<Rightarrow> bool" where
  "no_zone_under_hint db hn =
     (case hn of
        HStr d \<Rightarrow> list_all (\<lambda>tz. \<not> startsWith (tz_id tz) (first_part d @ ''/'')) db
      | _ \<Rightarrow> True)"

text \<open>An identifier with a slash and a non-empty part on each side of the first slash.\<close>

definition continent_city_shape :: "string \<Rightarrow> bool" where
  "continent_city_shape s =
     (CHR ''/'' \<in> set s \<and> takeWhile (\<lambda>c. c \<noteq> CHR ''/'') s \<noteq> []
      \<and> drop 1 (dropWhile (\<lambda>c. c \<noteq> CHR ''/'') s) \<noteq> [])"


definition soonest_future :: "int \<Rightarrow> int list \<Rightarrow> int option" where
  "soonest_future now cands =
     (case filter (\<lambda>c. now < c) cands of [] \<Rightarrow> None | c # cs \<Rightarrow> Some (fold min cs c))"

section \<open>Properties of the offset codec\<close>

lemma of_char_digit_char: "d < 10 \<Longrightarrow> (of_char (digit_char d) :: nat) = 48 + d"
  by (simp add: digit_char_def)

lemma is_digit_digit_char: "d < 10 \<Longrightarrow> is_digit (digit_char d)"
  by (simp add: is_digit_def of_char_digit_char)

lemma digit_val_digit_char: "d < 10 \<Longrightarrow> digit_val (digit_char d) = d"
  by (simp add: digit_val_def of_char_digit_char)

lemma digit_char_not_special:
  assumes "d < 10"
  shows "digit_char d \<noteq> CHR '':''" "digit_char d \<noteq> CHR ''+''" "digit_char d \<noteq> CHR ''-''"
    "\<not> is_ws (digit_char d)"
proof -
  have e: "(of_char (digit_char d) :: nat) = 48 + d" using assms by (rule of_char_digit_char)
  show "digit_char d \<noteq> CHR '':''" using e assms by (auto dest: arg_cong [where f = "of_char :: char \<Rightarrow> nat"])
  show "digit_char d \<noteq> CHR ''+''" using e by (auto dest: arg_cong [where f = "of_char :: char \<Rightarrow> nat"])
  show "digit_char d \<noteq> CHR ''-''" using e by (auto dest: arg_cong [where f = "of_char :: char \<Rightarrow> nat"])
  show "\<not> is_ws (digit_char d)" using e by (simp add: is_ws_def)
qed

lemma digit_char_zero: "digit_char 0 = CHR ''0''"
  unfolding digit_char_def by code_simp

lemma pad_two: 
  assumes "n < 100" shows "pad n 2 = [digit_char (n div 10), digit_char (n mod 10)]"
proof (cases "n < 10")
  case True
  then show ?thesis by (simp add: pad_def padStart_def toString_nat.simps[of n] digit_char_zero)
next
  case False
  with assms have "n div 10 < 10" by arith
  with False show ?thesis
   by (simp add: pad_def padStart_def toString_nat.simps[of n] toString_nat.simps[of "n div 10"])
qed


lemma parseInt_two_digits:
  assumes "a < 10" "b < 10"
  shows "parseInt [digit_char a, digit_char b] = Num (int (10 * a + b))"
  using assms
  by (simp add: parseInt_def Let_def digit_char_not_special is_digit_digit_char digit_val_digit_char)

lemma split_on_HH_MM:
  assumes "a < 10" "b < 10" "c < 10" "d < 10" "s \<noteq> CHR '':''"
  shows "split_on (CHR '':'') (s # digit_char a # digit_char b # CHR '':'' # [digit_char c, digit_char d])
     = [[s, digit_char a, digit_char b], [digit_char c, digit_char d]]"
  using assms by (simp add: digit_char_not_special)

lemma offset2str_shape:
  assumes "\<bar>m\<bar> < 6000"
  shows "offset2str m = (if m \<ge> 0 then CHR ''+'' else CHR ''-'') #
     [digit_char (nat \<bar>m\<bar> div 60 div 10), digit_char (nat \<bar>m\<bar> div 60 mod 10), CHR '':'',
      digit_char (nat \<bar>m\<bar> mod 60 div 10), digit_char (nat \<bar>m\<bar> mod 60 mod 10)]"
proof -
  have h: "nat \<bar>m\<bar> div 60 < 100" using assms by arith
  have mm: "nat \<bar>m\<bar> mod 60 < 100" by arith
  show ?thesis by (simp add: offset2str_def Let_def pad_two [OF h] pad_two [OF mm])
qed

lemma str2offset_compute_offset2str:
  assumes "\<bar>m\<bar> < 6000"
  shows "str2offset_compute (offset2str m) = Num m"
proof -
  let ?h = "nat \<bar>m\<bar> div 60" and ?mm = "nat \<bar>m\<bar> mod 60"
  let ?s = "if m \<ge> 0 then CHR ''+'' else CHR ''-''"
  have h: "?h < 100" using assms by arith
  have d: "?h div 10 < 10" "?h mod 10 < 10" "?mm div 10 < 10" "?mm mod 10 < 10" using h by arith+
  have s: "?s \<noteq> CHR '':''" by simp
  have sp: "split_on (CHR '':'') (offset2str m) =
      [[?s, digit_char (?h div 10), digit_char (?h mod 10)], [digit_char (?mm div 10), digit_char (?mm mod 10)]]"
    unfolding offset2str_shape [OF assms] by (rule split_on_HH_MM [OF d s])
  have colon: "CHR '':'' \<in> set (offset2str m)" unfolding offset2str_shape [OF assms] by simp
  have tk: "take (Suc 0) (offset2str m) = ''-'' \<longleftrightarrow> m < 0" unfolding offset2str_shape [OF assms] by simp
  have ph: "parseInt (remove_first_sign [?s, digit_char (?h div 10), digit_char (?h mod 10)]) = Num (int ?h)"
    using parseInt_two_digits [OF d(1) d(2)] by simp
  have pm: "parseInt [digit_char (?mm div 10), digit_char (?mm mod 10)] = Num (int ?mm)"
    using parseInt_two_digits [OF d(3) d(4)] by simp
  have e0: "?h * 60 + ?mm = nat \<bar>m\<bar>" by simp
  have e: "int ?h * 60 + int ?mm = \<bar>m\<bar>"
  proof -
    have "int (?h * 60 + ?mm) = int (nat \<bar>m\<bar>)" by (simp only: e0)
    then show ?thesis by (simp only: of_nat_add of_nat_mult of_nat_numeral int_nat_eq) simp
  qed
  have "str2offset_compute (offset2str m) = Num (if m < 0 then - (int ?h * 60 + int ?mm) else int ?h * 60 + int ?mm)"
    unfolding str2offset_compute_def by (simp add: colon sp ph pm tk num_or_zero_def Let_def del: remove_first_sign.simps)
  then show ?thesis by (simp only: e) simp
qed

lemma str2offset_cached:
  assumes "offset_cache_ok c"
  shows "fst (str2offset c s) = str2offset_compute s" "offset_cache_ok (snd (str2offset c s))"
  using assms by (auto simp: str2offset_def offset_cache_ok_def Let_def split: option.splits)

lemma is_HH_MM_offset2str:
  assumes "\<bar>m\<bar> < 6000" shows "is_HH_MM (offset2str m)"
proof -
  have h: "nat \<bar>m\<bar> div 60 < 100" using assms by arith
  have d: "nat \<bar>m\<bar> div 60 div 10 < 10" "nat \<bar>m\<bar> div 60 mod 10 < 10" "nat \<bar>m\<bar> mod 60 div 10 < 10" "nat \<bar>m\<bar> mod 60 mod 10 < 10" using h by arith+
  show ?thesis unfolding offset2str_shape [OF assms] is_HH_MM_def
    using d by (simp add: is_digit_digit_char)
qed

text \<open>
  Claim C4.  For every integer minute offset \<open>m\<close> from \<open>-720\<close> to \<open>840\<close>, formatting with
  \<open>#offset2str\<close> and parsing the result with \<open>#str2offset\<close> gives \<open>m\<close> back, whatever the
  memo table of the instance holds, and the formatted string has the shape \<open>\<plusminus>HH:MM\<close>.
\<close>

theorem offset_roundtrip:
  assumes "- 720 \<le> m" and "m \<le> 840" and "offset_cache_ok c"
  shows "fst (str2offset c (offset2str m)) = Num m \<and> is_HH_MM (offset2str m)"
proof -
  have b: "\<bar>m\<bar> < 6000" using assms by arith
  show ?thesis
    using str2offset_cached(1) [OF assms(3)] str2offset_compute_offset2str [OF b] is_HH_MM_offset2str [OF b]
    by simp
qed

theorem offset_roundtrip_witness:
  "- 720 \<le> (- 345 :: int) \<and> (- 345 :: int) \<le> 840 \<and> offset_cache_ok Map.empty
   \<and> fst (str2offset Map.empty (offset2str (- 345))) = Num (- 345) \<and> is_HH_MM (offset2str (- 345))"
proof -
  have c: "offset_cache_ok Map.empty" by (simp add: offset_cache_ok_def)
  show ?thesis using c offset_roundtrip [of "- 345" Map.empty] by simp
qed


section \<open>The caches of the DST rule engine are transparent\<close>





section \<open>Calendar fields of a time value\<close>

text \<open>
  The year computed for a day number is the year that contains the day, as ECMAScript
  defines \<open>YearFromTime\<close>.
\<close>

lemma div_bounds:
  fixes a :: int
  shows "4 * (a div 4) \<le> a" "a - 3 \<le> 4 * (a div 4)"
    "100 * (a div 100) \<le> a" "a - 99 \<le> 100 * (a div 100)"
    "400 * (a div 400) \<le> a" "a - 399 \<le> 400 * (a div 400)"
    "146097 * (a div 146097) \<le> a" "a - 146096 \<le> 146097 * (a div 146097)"
proof -
  have m: "0 \<le> a mod 4" "a mod 4 < 4" "0 \<le> a mod 100" "a mod 100 < 100"
    "0 \<le> a mod 400" "a mod 400 < 400" "0 \<le> a mod 146097" "a mod 146097 < 146097" by simp_all
  have e: "4 * (a div 4) = a - a mod 4" "100 * (a div 100) = a - a mod 100"
    "400 * (a div 400) = a - a mod 400" "146097 * (a div 146097) = a - a mod 146097"
    by (simp_all add: minus_mod_eq_mult_div [symmetric])
  show "4 * (a div 4) \<le> a" "a - 3 \<le> 4 * (a div 4)"
    "100 * (a div 100) \<le> a" "a - 99 \<le> 100 * (a div 100)"
    "400 * (a div 400) \<le> a" "a - 399 \<le> 400 * (a div 400)"
    "146097 * (a div 146097) \<le> a" "a - 146096 \<le> 146097 * (a div 146097)"
    unfolding e using m by linarith+
qed

lemma DayFromYear_bounds:
  "400 * DayFromYear y \<le> 146097 * (y - 1970) + 589"
  "146097 * (y - 1970) - 506 \<le> 400 * DayFromYear y"
proof -
  define a where "a = (y - 1969) div 4"
  define b where "b = (y - 1901) div 100"
  define c where "c = (y - 1601) div 400"
  have f: "DayFromYear y = 365 * (y - 1970) + a - b + c"
    by (simp add: DayFromYear_def a_def b_def c_def)
  note ba = div_bounds(1,2) [of "y - 1969", folded a_def]
  note bb = div_bounds(3,4) [of "y - 1901", folded b_def]
  note bc = div_bounds(5,6) [of "y - 1601", folded c_def]
  show "400 * DayFromYear y \<le> 146097 * (y - 1970) + 589"
    unfolding f using ba bb bc by (simp only: algebra_simps)
  show "146097 * (y - 1970) - 506 \<le> 400 * DayFromYear y"
    unfolding f using ba bb bc by (simp only: algebra_simps)
qed

lemma YearFromDay_correct:
  "DayFromYear (YearFromDay d) \<le> d \<and> d < DayFromYear (YearFromDay d + 1)"
proof -
  define q where "q = (d * 400) div 146097"
  define y where "y = 1970 + q"
  note bq = div_bounds(7,8) [of "d * 400", folded q_def]
  have lo: "DayFromYear (y - 1) \<le> d"
    using DayFromYear_bounds(1) [of "y - 1"] bq unfolding y_def by (simp only: algebra_simps)
  have hi: "d < DayFromYear (y + 2)"
    using DayFromYear_bounds(2) [of "y + 2"] bq unfolding y_def by (simp only: algebra_simps)
  have c: "YearFromDay d =
      (if d < DayFromYear y then y - 1 else if DayFromYear (y + 1) \<le> d then y + 1 else y)"
    by (simp add: YearFromDay_def y_def q_def Let_def)
  show ?thesis
  proof (cases "d < DayFromYear y")
    case True
    then show ?thesis using lo by (simp add: c)
  next
    case False
    show ?thesis
    proof (cases "DayFromYear (y + 1) \<le> d")
      case True
      have "y + 1 + 1 = y + 2" by simp
      then show ?thesis using True False hi by (simp add: c add.commute)
    next
      case False2: False
      then show ?thesis using False by (simp add: c)
    qed
  qed
qed










section \<open>DST membership, the n-th weekday and the next transition\<close>







text \<open>
  Claim C2.  For \<open>n = 0\<close> the claim promises the day of the last occurrence of the weekday.
  For March 2024 and Sunday the code returns 3, the first Sunday; the last Sunday of that
  month is the 31st.
\<close>

theorem nthWeekdayOfMonth_zero_is_first:
  "fst (nthWeekdayOfMonth (Timezones [] Null) 2024 3 0 0) = 3
   \<and> is_nth_occurrence 2024 3 0 1 3
   \<and> \<not> is_last_occurrence 2024 3 0 3
   \<and> is_last_occurrence 2024 3 0 31"
  by code_simp

text \<open>
  Claim C3.  For a rule whose start month is later than its end month, before this year's
  end the code answers with this year's start.  With the rule \<open>141A\<close> (first Sunday of
  October to first Sunday of April) and the clock at 2024-02-01T12:00:00Z the answer is
  2024-10-06T02:00:00Z tagged as a change into DST, while the soonest strictly future
  instant of the three candidates is this year's end, 2024-04-07T02:00:00Z.
\<close>

theorem next_transition_southern:
  "map_sum id fst
     (getTimeUntilNextDstChange (host_utc 1706788800000) [row_Sydney]
        (Timezones [row_Sydney] (HStr ''Australia/Sydney'')))
     = Inr (Some \<lparr>next_change = Num 1728180000000, time_until_change = Num 21351600000,
                  change_to_dst = True\<rparr>)
   \<and> map_sum id fst
       (getDate_tz (host_utc 1706788800000) [row_Sydney]
          (Timezones [row_Sydney] (HStr ''Australia/Sydney''))) = Inr (Num 1706828400000)
   \<and> soonest_future 1706828400000
        [calculateDstDate_compute 2024 10 1, calculateDstDate_compute 2024 4 1,
         calculateDstDate_compute 2025 10 1] = Some 1712455200000
   \<and> calculateDstDate_compute 2024 4 1 = 1712455200000"
  by code_simp


section \<open>Resolution of a malformed hint and the nearest-zone scan\<close>

text \<open>
  Claim C6.  The hint \<open>"Europe"\<close> names a continent of the table and has no city part.  With
  two rows of that continent in the table, \<open>getLocation\<close> reaches \<open>#findBestMatch\<close> with the
  city \<open>undefined\<close>, and \<open>#calculateStringSimilarity\<close> raises a TypeError; the same table
  resolves a misspelled city and degrades to \<open>"Unknown"\<close> for an unknown continent.
\<close>

theorem getLocation_raises:
  "map_sum id fst
     (getLocation (host_utc 1706788800000) [row_London, row_Warsaw]
        (Timezones [row_London, row_Warsaw] (HStr ''Europe''))) = Inl TypeError
   \<and> map_sum id fst
     (getLocation (host_utc 1706788800000) [row_London, row_Warsaw]
        (Timezones [row_London, row_Warsaw] (HStr ''Europe/WarZaw''))) = Inr ''Europe/Warsaw''
   \<and> map_sum id fst
     (getLocation (host_utc 1706788800000) [row_London, row_Warsaw]
        (Timezones [row_London, row_Warsaw] (HStr ''WrongCountry/WrongCity''))) = Inr ''Unknown''"
  by code_simp

text \<open>
  Claim C8.  The index stores each coordinate as \<open>tz * 10000 + 0.5\<close> without truncating, so
  the scan does not minimise the Manhattan distance of the scaled coordinates.  For the
  point at latitude 1.00003 on the meridian and rows at latitudes 0 and 2, the row at
  latitude 2 is strictly nearer, and the code returns the row at latitude 0.  For the
  point at latitude 1 both rows are at the same distance, the row at latitude 2 comes first
  in the table, and the code returns the row at latitude 0.
\<close>

theorem getApproxLocation_not_nearest:
  "map_sum id fst
     (getApproxLocation [row_lat0, row_lat2] (Timezones [row_lat0, row_lat2] Null)
        (100003 / 100000) 0) = Inr ''Atlantic/Lat0''
   \<and> manhattan (100003 / 100000) 0 row_lat2 < manhattan (100003 / 100000) 0 row_lat0
   \<and> is_first_nearest [row_lat0, row_lat2] (100003 / 100000) 0 1
   \<and> tz_id ([row_lat0, row_lat2] ! 1) = ''Atlantic/Lat2''
   \<and> map_sum id fst
     (getApproxLocation [row_lat2, row_lat0] (Timezones [row_lat2, row_lat0] Null) 1 0)
       = Inr ''Atlantic/Lat0''
   \<and> manhattan 1 0 row_lat2 = manhattan 1 0 row_lat0
   \<and> is_first_nearest [row_lat2, row_lat0] 1 0 0
   \<and> tz_id ([row_lat2, row_lat0] ! 0) = ''Atlantic/Lat2''"
  by code_simp


section \<open>The status cache of getDaylightStatus\<close>






section \<open>Clearing the caches\<close>






section \<open>String similarity and the best match\<close>
















section \<open>Resolution of a numeric hint\<close>

lemma isDstNow_False: "isDstNow db st x = False"
  by (simp add: isDstNow_def row_property_utc_dst_def list_ex_iff split: option.splits)

lemma filter_by_offset_std:
  assumes "offsets_well_formed db"
  shows "filter_by_offset False s db = Inr (filter (\<lambda>tz. normalizeOffset_str (utc_sdt tz) = Inr s) db)"
  using assms
proof (induction db)
  case Nil
  then show ?case by simp
next
  case (Cons tz db)
  from Cons.prems have r: "offsets_well_formed db" by (simp add: offsets_well_formed_def)
  from Cons.prems obtain a b where a: "normalizeOffset_str (utc_sdt tz) = Inr a"
    and b: "normalizeOffset_str (utc_dst tz) = Inr b"
    by (auto simp: offsets_well_formed_def normalizeOffset_str_def split: option.splits)
  show ?case using Cons.IH [OF r] by (simp add: a b)
qed

lemma findTimeZoneByOffset_std:
  assumes "offsets_well_formed db" and "tz_info_cache st (m, False) = None"
  shows "\<exists>st'. findTimeZoneByOffset db st m False = Inr (filter (std_offset_matches m) db, st')
           \<and> default_offset st' = default_offset st"
proof -
  have e: "filter (std_offset_matches m) db
      = filter (\<lambda>tz. normalizeOffset_str (utc_sdt tz) = Inr (normalizeOffset_num m)) db"
    by (rule filter_cong) (simp_all add: std_offset_matches_def)
  show ?thesis using assms(2)
    by (simp add: findTimeZoneByOffset_def filter_by_offset_std [OF assms(1)] e)
qed

lemma first_tz_id_prefer:
  assumes "cands \<noteq> []"
  shows "first_tz_id (prefer_non_deprecated cands) = Inr (Some (tz_id (hd (prefer_non_deprecated cands))))"
  using assms by (cases cands) (auto simp: first_tz_id_def prefer_non_deprecated_def split: list.splits)

lemma filtered_tzs_prefer:
  "(if length (filter (\<lambda>tz. \<not> str_includes (tz_id tz) ''Etc/'') cands) > 0
    then filter (\<lambda>tz. \<not> str_includes (tz_id tz) ''Etc/'') cands else cands) = prefer_non_deprecated cands"
  by (simp add: prefer_non_deprecated_def split: list.splits)

lemma prefer_singleton: "prefer_non_deprecated [tz] = [tz]"
  by (simp add: prefer_non_deprecated_def)

lemma prefer_cases:
  "prefer_non_deprecated cands = cands
   \<or> prefer_non_deprecated cands = filter (\<lambda>tz. \<not> str_includes (tz_id tz) ''Etc/'') cands"
  by (simp add: prefer_non_deprecated_def split: list.splits)

lemma prefer_subset: "set (prefer_non_deprecated cands) \<subseteq> set cands"
  using prefer_cases [of cands] by auto

lemma prefer_nonempty: "cands \<noteq> [] \<Longrightarrow> prefer_non_deprecated cands \<noteq> []"
  by (simp add: prefer_non_deprecated_def split: list.splits)


lemma filtered_tzs_prefer':
  "(if filter (\<lambda>tz. \<not> str_includes (tz_id tz) ''Etc/'') cands \<noteq> []
    then filter (\<lambda>tz. \<not> str_includes (tz_id tz) ''Etc/'') cands else cands) = prefer_non_deprecated cands"
  by (simp add: prefer_non_deprecated_def split: list.splits)

lemma selectBestMatchingTimeZone_no_continent:
  assumes "cands \<noteq> []"
    and "\<And>d. default_offset st = HStr d \<Longrightarrow> d \<noteq> [] \<Longrightarrow>
            \<forall>tz\<in>set cands. \<not> startsWith (tz_id tz) (first_part d @ ''/'')"
  shows "selectBestMatchingTimeZone st cands = Inr (Some (tz_id (hd (prefer_non_deprecated cands))))"
proof (cases "length cands = 1")
  case True
  then obtain tz where c: "cands = [tz]" by (cases cands) auto
  show ?thesis by (simp add: selectBestMatchingTimeZone_def c first_tz_id_def prefer_singleton)
next
  case False
  with assms(1) have len: "length cands \<noteq> 0" "length cands \<noteq> 1" by simp_all
  note ft = first_tz_id_prefer [OF assms(1)]
  show ?thesis
  proof (cases "default_offset st")
    case Null
    then show ?thesis using len
      by (simp add: selectBestMatchingTimeZone_def Let_def filtered_tzs_prefer' ft del: One_nat_def)
  next
    case (HNum n)
    then show ?thesis using len
      by (simp add: selectBestMatchingTimeZone_def Let_def filtered_tzs_prefer' ft del: One_nat_def)
  next
    case (HStr d)
    show ?thesis
    proof (cases "d = []")
      case True
      then show ?thesis using len HStr
        by (simp add: selectBestMatchingTimeZone_def Let_def filtered_tzs_prefer' ft del: One_nat_def)
    next
      case False
      from assms(2) [OF HStr False] prefer_subset [of cands]
      have "filter (\<lambda>tz. startsWith (tz_id tz) (first_part d @ ''/'')) (prefer_non_deprecated cands) = []"
        by (auto simp: filter_empty_conv)
      then show ?thesis using len HStr False
        by (simp add: selectBestMatchingTimeZone_def Let_def filtered_tzs_prefer' ft del: One_nat_def)
    qed
  qed
qed

lemma determineOffset_known_zone:
  assumes "tz \<in> set db" and "continent_city_shape (tz_id tz)"
  shows "\<exists>r st'. determineOffset db st (tz_id tz) = Inr (r, st')"
proof -
  from assms(1) have "filter (\<lambda>t. tz_id t = tz_id tz) db \<noteq> []"
    by (auto simp: filter_empty_conv)
  then obtain t ts where f: "filter (\<lambda>t. tz_id t = tz_id tz) db = t # ts"
    by (cases "filter (\<lambda>t. tz_id t = tz_id tz) db") auto
  show ?thesis using assms(2)
    by (simp add: determineOffset_def continent_city_shape_def Let_def f str2offset_st_def split_beta)
qed

lemma continent_city_shape_not_special:
  assumes "continent_city_shape s"
  shows "s \<noteq> []" "s \<noteq> ''Unknown''"
  using assms by (auto simp: continent_city_shape_def)


lemma locate_by_default_mins_std:
  assumes "offsets_well_formed db"
    and "default_offset_mins st = Some m"
    and "tz_info_cache st (m, False) = None"
    and "filter (std_offset_matches m) db \<noteq> []"
    and "no_zone_under_hint db (default_offset st)"
  shows "\<exists>st'. locate_by_default_mins db st False None
           = Inr (Some (tz_id (hd (prefer_non_deprecated (filter (std_offset_matches m) db)))), st')"
proof -
  let ?cands = "filter (std_offset_matches m) db"
  from findTimeZoneByOffset_std [OF assms(1) assms(3)]
  obtain st' where f: "findTimeZoneByOffset db st m False = Inr (?cands, st')"
    and d: "default_offset st' = default_offset st" by blast
  have "selectBestMatchingTimeZone st' ?cands = Inr (Some (tz_id (hd (prefer_non_deprecated ?cands))))"
  proof (rule selectBestMatchingTimeZone_no_continent [OF assms(4)])
    fix dd assume "default_offset st' = HStr dd" and "dd \<noteq> []"
    with d have "default_offset st = HStr dd" by simp
    with assms(5) have "list_all (\<lambda>tz. \<not> startsWith (tz_id tz) (first_part dd @ ''/'')) db"
      by (simp add: no_zone_under_hint_def)
    then show "\<forall>tz\<in>set ?cands. \<not> startsWith (tz_id tz) (first_part dd @ ''/'')"
      by (simp add: list_all_iff)
  qed
  then show ?thesis
    by (simp add: locate_by_default_mins_def assms(2) falsy_location_def f)
qed

lemma Timezones_fields:
  "default_offset_mins (Timezones db hn) = None"
  "location_cache (Timezones db hn) = None"
  "tz_info_cache (Timezones db hn) = Map.empty"
  "offset_cache (Timezones db hn) = Map.empty"
  by (simp_all add: Timezones_def)

lemma locate_by_default_offset_std:
  assumes "offsets_well_formed db"
    and "hint_offset (default_offset (Timezones db hn)) = Some m"
    and "filter (std_offset_matches m) db \<noteq> []"
    and "no_zone_under_hint db (default_offset (Timezones db hn))"
  shows "\<exists>st'. locate_by_default_offset db (Timezones db hn) False
           = Inr (Some (tz_id (hd (prefer_non_deprecated (filter (std_offset_matches m) db)))), st')"
proof (cases "default_offset (Timezones db hn)")
  case Null
  with assms(2) show ?thesis by (simp add: hint_offset_def)
next
  case (HNum n)
  with assms(2) have n: "n \<noteq> 0" and m: "m = Num (n * 60)"
    by (auto simp: hint_offset_def split: if_splits)
  let ?st = "(Timezones db hn)\<lparr>default_offset_mins := Some (Num (n * 60))\<rparr>"
  have "\<exists>st'. locate_by_default_mins db ?st False None
           = Inr (Some (tz_id (hd (prefer_non_deprecated (filter (std_offset_matches m) db)))), st')"
    by (rule locate_by_default_mins_std [OF assms(1)])
       (use assms(3) assms(4) m in \<open>simp_all add: Timezones_fields\<close>)
  then show ?thesis using HNum n by (simp add: locate_by_default_offset_def)
next
  case (HStr d)
  with assms(2) have rx: "HH_MM_OFFSET_REGEX_test d" and m: "m = str2offset_compute d"
    by (auto simp: hint_offset_def split: if_splits)
  from rx have ne: "d \<noteq> []" by (auto simp: HH_MM_OFFSET_REGEX_test_def)
  have s: "str2offset_st (Timezones db hn) d
      = (m, (Timezones db hn)\<lparr>offset_cache := (offset_cache (Timezones db hn))(d \<mapsto> m)\<rparr>)"
    by (simp add: str2offset_st_def str2offset_def Timezones_fields m Let_def)
  let ?st = "(Timezones db hn)\<lparr>offset_cache := (offset_cache (Timezones db hn))(d \<mapsto> m),
      default_offset_mins := Some m\<rparr>"
  have "\<exists>st'. locate_by_default_mins db ?st False None
           = Inr (Some (tz_id (hd (prefer_non_deprecated (filter (std_offset_matches m) db)))), st')"
    by (rule locate_by_default_mins_std [OF assms(1)])
       (use assms(3) assms(4) in \<open>simp_all add: Timezones_fields\<close>)
  then show ?thesis using HStr rx ne by (simp add: locate_by_default_offset_def s)
qed


text \<open>
  Claim C5, as amended.  Let the table have well-formed offsets, and let the hint be a number
  of hours other than 0 or a string that the offset pattern accepts, not itself an
  identifier, country code or abbreviation of the table (and no identifier starts with
  the hint string and a slash).  Then a fresh instance resolves among exactly the rows
  whose standard offset equals the hint's offset: it returns the first of those whose
  identifier does not contain \<open>Etc/\<close>, or the first of all of them if every one does,
  provided there is such a row and the chosen identifier has the shape Continent/City.
  The DST flag that \<open>#isDstNow\<close> computes is false in every state.
\<close>

theorem getLocation_offset_hint:
  assumes "offsets_well_formed db"
    and "tz_data (Timezones db hn) = None"
    and "hint_offset (default_offset (Timezones db hn)) = Some m"
    and "no_zone_under_hint db (default_offset (Timezones db hn))"
    and "filter (std_offset_matches m) db \<noteq> []"
    and "continent_city_shape (tz_id (hd (prefer_non_deprecated (filter (std_offset_matches m) db))))"
  shows "map_sum id fst (getLocation h db (Timezones db hn))
           = Inr (tz_id (hd (prefer_non_deprecated (filter (std_offset_matches m) db))))
         \<and> isDstNow db st x = False"
proof -
  let ?cands = "filter (std_offset_matches m) db"
  let ?chosen = "hd (prefer_non_deprecated ?cands)"
  let ?st = "Timezones db hn"
  from locate_by_default_offset_std [OF assms(1) assms(3) assms(5) assms(4)]
  obtain st1 where l: "locate_by_default_offset db ?st False = Inr (Some (tz_id ?chosen), st1)"
    by blast
  have "?chosen \<in> set (prefer_non_deprecated ?cands)"
    using prefer_nonempty [OF assms(5)] by simp
  then have mem: "?chosen \<in> set db" using prefer_subset [of ?cands] by auto
  from determineOffset_known_zone [OF mem assms(6)]
  obtain r st3 where d: "determineOffset db st1 (tz_id ?chosen) = Inr (r, st3)" by blast
  note ns = continent_city_shape_not_special [OF assms(6)]
  have "getLocation h db ?st
      = Inr (tz_id ?chosen, st3\<lparr>default_offset_mins := Some r, location_cache := Some (tz_id ?chosen)\<rparr>)"
    using ns
    by (simp add: getLocation_def assms(2) Timezones_fields isDstNow_False l falsy_location_def d Let_def)
  then show ?thesis by (simp add: isDstNow_False)
qed

theorem getLocation_offset_hint_witness:
  "offsets_well_formed [row_Etc_GMT_plus_4, row_New_York, row_Halifax]
   \<and> tz_data (Timezones [row_Etc_GMT_plus_4, row_New_York, row_Halifax] (HStr ''-4'')) = None
   \<and> hint_offset (default_offset (Timezones [row_Etc_GMT_plus_4, row_New_York, row_Halifax] (HStr ''-4'')))
       = Some (Num (- 240))
   \<and> no_zone_under_hint [row_Etc_GMT_plus_4, row_New_York, row_Halifax]
        (default_offset (Timezones [row_Etc_GMT_plus_4, row_New_York, row_Halifax] (HStr ''-4'')))
   \<and> filter (std_offset_matches (Num (- 240))) [row_Etc_GMT_plus_4, row_New_York, row_Halifax]
        = [row_Etc_GMT_plus_4, row_Halifax]
   \<and> prefer_non_deprecated [row_Etc_GMT_plus_4, row_Halifax] = [row_Halifax]
   \<and> continent_city_shape (tz_id row_Halifax)
   \<and> map_sum id fst
        (getLocation (host_utc 1719835200000) [row_Etc_GMT_plus_4, row_New_York, row_Halifax]
           (Timezones [row_Etc_GMT_plus_4, row_New_York, row_Halifax] (HStr ''-4'')))
       = Inr ''America/Halifax''"
proof -
  let ?db = "[row_Etc_GMT_plus_4, row_New_York, row_Halifax]"
  have a: "offsets_well_formed ?db" by code_simp
  have b: "tz_data (Timezones ?db (HStr ''-4'')) = None" by code_simp
  have c: "hint_offset (default_offset (Timezones ?db (HStr ''-4''))) = Some (Num (- 240))" by code_simp
  have d: "no_zone_under_hint ?db (default_offset (Timezones ?db (HStr ''-4'')))" by code_simp
  have e: "filter (std_offset_matches (Num (- 240))) ?db = [row_Etc_GMT_plus_4, row_Halifax]" by code_simp
  have f: "prefer_non_deprecated [row_Etc_GMT_plus_4, row_Halifax] = [row_Halifax]" by code_simp
  have g: "continent_city_shape (tz_id row_Halifax)" by code_simp
  have i: "tz_id row_Halifax = ''America/Halifax''" by (simp add: row_Halifax_def)
  have e': "filter (std_offset_matches (Num (- 240))) ?db \<noteq> []" by (simp only: e) simp
  have g': "continent_city_shape (tz_id (hd (prefer_non_deprecated (filter (std_offset_matches (Num (- 240))) ?db))))"
    by (simp only: e f list.sel g)
  show ?thesis
    using a b c d e f g
      getLocation_offset_hint [OF a b c d e' g', where h = "host_utc 1719835200000"]
    by (simp only: e f list.sel i)
qed

theorem getLocation_dst_offset_counterexample:
  "map_sum id fst
     (getLocation (host_utc 1719835200000) [row_New_York, row_Halifax]
        (Timezones [row_New_York, row_Halifax] (HNum (- 4)))) = Inr ''America/Halifax''
   \<and> isDstPeriod_compute (host_utc 1719835200000) 1719835200000 (dst_rule row_Halifax)
   \<and> isDstPeriod_compute (host_utc 1719835200000) 1719835200000 (dst_rule row_New_York)
   \<and> normalizeOffset_num (Num (- 4 * 60)) = ''-04:00''
   \<and> utc_dst row_Halifax = ''-03:00''
   \<and> utc_dst row_New_York = ''-04:00''"
  by code_simp


end
